theory Spec2Isabelle
  imports Main
begin

section \<open>Benchmark metrics: ax/benchmark/metrics/benchmark.py\<close>

text \<open>
  Python objects have identity, and \<open>make_ground_truth_metric\<close> either allocates a new
  object or hands back \<open>self\<close>. The model therefore keeps an explicit heap: a list of
  metric objects in which a reference is the position of the object. Allocation appends,
  so the reference of a new object is the length of the heap before the allocation and
  differs from every reference that was live before.
\<close>

type_synonym ref = nat

datatype metric_class = BenchmarkMetric | GroundTruthBenchmarkMetric

fun class_name :: "metric_class \<Rightarrow> string" where
  "class_name BenchmarkMetric = ''BenchmarkMetric''"
| "class_name GroundTruthBenchmarkMetric = ''GroundTruthBenchmarkMetric''"

text \<open>
  The attributes an instance carries after \<open>__init__\<close>. \<open>original_metric\<close> is set by
  \<open>GroundTruthBenchmarkMetric.__init__\<close> only; an instance of the plain class has no
  such attribute, which is \<open>None\<close> here.
\<close>

record metric =
  class_of :: metric_class
  name :: string
  lower_is_better :: bool
  observe_noise_sd :: bool
  outcome_index :: "int option"
  original_metric :: "ref option"

type_synonym heap = "metric list"

definition deref :: "heap \<Rightarrow> ref \<Rightarrow> metric option" where
  "deref h r = (if r < length h then Some (h ! r) else None)"

definition alloc :: "metric \<Rightarrow> heap \<Rightarrow> ref \<times> heap" where
  "alloc obj h = (length h, h @ [obj])"

text \<open>
  \<open>BenchmarkMetric.__init__\<close> (lines 33-58), run on an object of class \<open>cls\<close>: it calls
  the base initialiser with \<open>name\<close> and \<open>lower_is_better\<close>, then sets
  \<open>lower_is_better\<close>, \<open>observe_noise_sd\<close> and \<open>outcome_index\<close> from its arguments.
\<close>

text \<open>
  Modelled from the spec: the base initialiser \<open>BenchmarkMetricBase.__init__\<close>
  (ax.benchmark.metrics.base) is not among the sources. It is taken to store its \<open>name\<close>
  argument as the attribute \<open>name\<close>, which \<open>fetch_trial_data\<close> reads back as
  \<open>self.name\<close> (spec, section 3: a BenchmarkMetric has the attributes name,
  lower_is_better, observe_noise_sd and outcome_index), and to set nothing else that the
  methods of this file read.
\<close>

definition BenchmarkMetric_init ::
  "metric_class \<Rightarrow> string \<Rightarrow> bool \<Rightarrow> bool \<Rightarrow> int option \<Rightarrow> metric" where
  "BenchmarkMetric_init cls n lib ons oi =
     \<lparr>class_of = cls, name = n, lower_is_better = lib, observe_noise_sd = ons,
      outcome_index = oi, original_metric = None\<rparr>"

text \<open>The constructor call \<open>BenchmarkMetric(name, lower_is_better, observe_noise_sd,
  outcome_index)\<close>: a fresh object of the plain class.\<close>

definition new_BenchmarkMetric ::
  "string \<Rightarrow> bool \<Rightarrow> bool \<Rightarrow> int option \<Rightarrow> heap \<Rightarrow> ref \<times> heap" where
  "new_BenchmarkMetric n lib ons oi h =
     alloc (BenchmarkMetric_init BenchmarkMetric n lib ons oi) h"

text \<open>
  \<open>GroundTruthBenchmarkMetric.__init__\<close> (lines 80-92). The class method
  \<open>get_ground_truth_name\<close> comes from \<open>GroundTruthMetricMixin\<close>, which is not among the
  sources: it is the parameter \<open>gtn\<close>, a function of the original metric object, as the
  call site passes the whole object. The argument \<open>orig\<close> is the original metric as the
  caller holds it: a reference together with the object it points to.
\<close>

definition GroundTruthBenchmarkMetric_init ::
  "(metric \<Rightarrow> string) \<Rightarrow> ref \<Rightarrow> metric \<Rightarrow> metric" where
  "GroundTruthBenchmarkMetric_init gtn orig_ref orig =
     (BenchmarkMetric_init GroundTruthBenchmarkMetric
        (gtn orig) (lower_is_better orig) False (outcome_index orig))
     \<lparr>original_metric := Some orig_ref\<rparr>"

text \<open>The constructor call \<open>GroundTruthBenchmarkMetric(original_metric=...)\<close>. A
  reference that is not in the heap cannot arise in Python; the model answers \<open>None\<close>.\<close>

definition new_GroundTruthBenchmarkMetric ::
  "(metric \<Rightarrow> string) \<Rightarrow> ref \<Rightarrow> heap \<Rightarrow> (ref \<times> heap) option" where
  "new_GroundTruthBenchmarkMetric gtn orig_ref h =
     (case deref h orig_ref of
        None \<Rightarrow> None
      | Some orig \<Rightarrow> Some (alloc (GroundTruthBenchmarkMetric_init gtn orig_ref orig) h))"

text \<open>
  \<open>make_ground_truth_metric\<close>, with the dynamic dispatch on the class of \<open>self\<close>:
  lines 74-76 for the plain class, lines 108-110 for the ground-truth class.
\<close>

definition make_ground_truth_metric ::
  "(metric \<Rightarrow> string) \<Rightarrow> ref \<Rightarrow> heap \<Rightarrow> (ref \<times> heap) option" where
  "make_ground_truth_metric gtn self h =
     (case deref h self of
        None \<Rightarrow> None
      | Some obj \<Rightarrow>
          (case class_of obj of
             BenchmarkMetric \<Rightarrow> new_GroundTruthBenchmarkMetric gtn self h
           | GroundTruthBenchmarkMetric \<Rightarrow> Some (self, h)))"

text \<open>
  The expression of the spec's idempotence property,
  \<open>metric.make_ground_truth_metric().make_ground_truth_metric() is
  metric.make_ground_truth_metric()\<close>, evaluated as Python does: the left operand first
  (two calls), then the right operand (a third call on \<open>metric\<close>), then the comparison of
  the two references.
\<close>

definition ground_truth_twice_is_once ::
  "(metric \<Rightarrow> string) \<Rightarrow> ref \<Rightarrow> heap \<Rightarrow> bool option" where
  "ground_truth_twice_is_once gtn m h =
     (case make_ground_truth_metric gtn m h of
        None \<Rightarrow> None
      | Some (a, h1) \<Rightarrow>
          (case make_ground_truth_metric gtn a h1 of
             None \<Rightarrow> None
           | Some (b, h2) \<Rightarrow>
               (case make_ground_truth_metric gtn m h2 of
                  None \<Rightarrow> None
                | Some (c, h3) \<Rightarrow> Some (b = c))))"

text \<open>
  The heaps that the operations of the module can build, starting from no object: every
  ground-truth metric that ever exists lives in such a heap.
\<close>

inductive reachable :: "(metric \<Rightarrow> string) \<Rightarrow> heap \<Rightarrow> bool" for gtn where
  reach_empty: "reachable gtn []"
| reach_new: "reachable gtn h \<Longrightarrow> new_BenchmarkMetric n lib ons oi h = (r, h')
    \<Longrightarrow> reachable gtn h'"
| reach_new_gt: "reachable gtn h \<Longrightarrow> new_GroundTruthBenchmarkMetric gtn orig h = Some (r, h')
    \<Longrightarrow> reachable gtn h'"
| reach_make: "reachable gtn h \<Longrightarrow> make_ground_truth_metric gtn self h = Some (r, h')
    \<Longrightarrow> reachable gtn h'"

text \<open>The invariant of the heap: no ground-truth metric in it observes the noise
  level.\<close>

definition ground_truth_noise_free :: "heap \<Rightarrow> bool" where
  "ground_truth_noise_free h =
     (\<forall>r < length h. class_of (h ! r) = GroundTruthBenchmarkMetric
        \<longrightarrow> observe_noise_sd (h ! r) = False)"

text \<open>
  Modelled from the spec: \<open>GroundTruthMetricMixin.get_ground_truth_name\<close>
  (ax.benchmark.metrics.base) is not among the sources. The spec, section 3, says the name
  of a ground-truth metric is "derived deterministically from its original metric's name
  (prefix/suffix convention)": the original name between a fixed prefix and a fixed suffix,
  both parameters here.
\<close>

definition get_ground_truth_name :: "string \<Rightarrow> string \<Rightarrow> metric \<Rightarrow> string" where
  "get_ground_truth_name pre suf m = pre @ name m @ suf"

subsection \<open>Fetching trial data\<close>

text \<open>
  The keyword arguments of one call of \<open>_fetch_trial_data\<close> (ax.benchmark.metrics.utils,
  the spec's Fetch Bridge). The function itself is not among the sources: it is the
  parameter \<open>bridge\<close>, and the model keeps a log of the calls made to it, so that
  "called once" and "not called" can be stated.
\<close>

record 't fetch_args =
  arg_trial :: 't
  arg_metric_name :: string
  arg_outcome_index :: "int option"
  arg_include_noise_sd :: bool
  arg_ground_truth :: bool

definition call_fetch_trial_data ::
  "('t fetch_args \<Rightarrow> 'r) \<Rightarrow> 't fetch_args \<Rightarrow> 't fetch_args list \<Rightarrow> 'r \<times> 't fetch_args list" where
  "call_fetch_trial_data bridge args log = (bridge args, log @ [args])"

text \<open>
  The exception of lines 62-65 and 96-99. Its message is built from \<open>set(kwargs)\<close> and
  \<open>self.__class__.__name__\<close>; the exception value carries these two instead of the
  formatted text, whose rendering of a set has no fixed order.
\<close>

datatype exn = NotImplementedError "string set" string

text \<open>\<open>**kwargs\<close> is a dictionary from argument names to values, in call order.\<close>

type_synonym 'v kwargs = "(string \<times> 'v) list"

definition BenchmarkMetric_fetch_trial_data ::
  "('t fetch_args \<Rightarrow> 'r) \<Rightarrow> metric \<Rightarrow> 't \<Rightarrow> 'v kwargs \<Rightarrow> 't fetch_args list
     \<Rightarrow> (exn + 'r) \<times> 't fetch_args list" where
  "BenchmarkMetric_fetch_trial_data bridge self trial kwargs log =
     (if length kwargs > 0
      then (Inl (NotImplementedError (fst ` set kwargs) (class_name (class_of self))), log)
      else (case call_fetch_trial_data bridge
                   \<lparr>arg_trial = trial, arg_metric_name = name self,
                    arg_outcome_index = outcome_index self,
                    arg_include_noise_sd = observe_noise_sd self,
                    arg_ground_truth = False\<rparr> log of
              (res, log') \<Rightarrow> (Inr res, log')))"

definition GroundTruthBenchmarkMetric_fetch_trial_data ::
  "('t fetch_args \<Rightarrow> 'r) \<Rightarrow> metric \<Rightarrow> 't \<Rightarrow> 'v kwargs \<Rightarrow> 't fetch_args list
     \<Rightarrow> (exn + 'r) \<times> 't fetch_args list" where
  "GroundTruthBenchmarkMetric_fetch_trial_data bridge self trial kwargs log =
     (if length kwargs > 0
      then (Inl (NotImplementedError (fst ` set kwargs) (class_name (class_of self))), log)
      else (case call_fetch_trial_data bridge
                   \<lparr>arg_trial = trial, arg_metric_name = name self,
                    arg_outcome_index = outcome_index self,
                    arg_include_noise_sd = False,
                    arg_ground_truth = True\<rparr> log of
              (res, log') \<Rightarrow> (Inr res, log')))"

text \<open>The call \<open>self.fetch_trial_data(trial, **kwargs)\<close>: the method of the class of
  \<open>self\<close>.\<close>

definition fetch_trial_data ::
  "('t fetch_args \<Rightarrow> 'r) \<Rightarrow> metric \<Rightarrow> 't \<Rightarrow> 'v kwargs \<Rightarrow> 't fetch_args list
     \<Rightarrow> (exn + 'r) \<times> 't fetch_args list" where
  "fetch_trial_data bridge self trial kwargs log =
     (case class_of self of
        BenchmarkMetric \<Rightarrow> BenchmarkMetric_fetch_trial_data bridge self trial kwargs log
      | GroundTruthBenchmarkMetric \<Rightarrow>
          GroundTruthBenchmarkMetric_fetch_trial_data bridge self trial kwargs log)"

section \<open>The JSON store registries: ax/storage/json_store/registry.py\<close>

text \<open>
  A class object is identified by the module it is imported from and the name it is
  imported under, which is also its \<open>__name__\<close> (no import of the file renames a class).
  The encoder and decoder functions are imported from ax.storage.json_store.encoders and
  ax.storage.json_store.decoders, which are not among the sources: the registries only
  refer to them, so they are names here.
\<close>

datatype pytype = PyClass (py_module: string) (py_name: string)

abbreviation SimpleBenchmarkProblem :: pytype where
  "SimpleBenchmarkProblem \<equiv> PyClass ''ax.benchmark.benchmark_problem'' ''SimpleBenchmarkProblem''"

abbreviation BenchmarkMethod :: pytype where
  "BenchmarkMethod \<equiv> PyClass ''ax.benchmark2.benchmark_method'' ''BenchmarkMethod''"

abbreviation MultiObjectiveBenchmarkProblem :: pytype where
  "MultiObjectiveBenchmarkProblem \<equiv> PyClass ''ax.benchmark2.benchmark_problem'' ''MultiObjectiveBenchmarkProblem''"

abbreviation SingleObjectiveBenchmarkProblem :: pytype where
  "SingleObjectiveBenchmarkProblem \<equiv> PyClass ''ax.benchmark2.benchmark_problem'' ''SingleObjectiveBenchmarkProblem''"

abbreviation BenchmarkProblem :: pytype where
  "BenchmarkProblem \<equiv> PyClass ''ax.benchmark2.benchmark_problem'' ''BenchmarkProblem''"

abbreviation AggregatedBenchmarkResult :: pytype where
  "AggregatedBenchmarkResult \<equiv> PyClass ''ax.benchmark2.benchmark_result'' ''AggregatedBenchmarkResult''"

abbreviation BenchmarkResult :: pytype where
  "BenchmarkResult \<equiv> PyClass ''ax.benchmark2.benchmark_result'' ''BenchmarkResult''"

abbreviation ScoredBenchmarkResult :: pytype where
  "ScoredBenchmarkResult \<equiv> PyClass ''ax.benchmark2.benchmark_result'' ''ScoredBenchmarkResult''"

abbreviation ObservationFeatures :: pytype where
  "ObservationFeatures \<equiv> PyClass ''ax.core'' ''ObservationFeatures''"

abbreviation Arm :: pytype where
  "Arm \<equiv> PyClass ''ax.core.arm'' ''Arm''"

abbreviation TrialStatus :: pytype where
  "TrialStatus \<equiv> PyClass ''ax.core.base_trial'' ''TrialStatus''"

abbreviation AbandonedArm :: pytype where
  "AbandonedArm \<equiv> PyClass ''ax.core.batch_trial'' ''AbandonedArm''"

abbreviation BatchTrial :: pytype where
  "BatchTrial \<equiv> PyClass ''ax.core.batch_trial'' ''BatchTrial''"

abbreviation GeneratorRunStruct :: pytype where
  "GeneratorRunStruct \<equiv> PyClass ''ax.core.batch_trial'' ''GeneratorRunStruct''"

abbreviation Data :: pytype where
  "Data \<equiv> PyClass ''ax.core.data'' ''Data''"

abbreviation DataType :: pytype where
  "DataType \<equiv> PyClass ''ax.core.experiment'' ''DataType''"

abbreviation Experiment :: pytype where
  "Experiment \<equiv> PyClass ''ax.core.experiment'' ''Experiment''"

abbreviation GeneratorRun :: pytype where
  "GeneratorRun \<equiv> PyClass ''ax.core.generator_run'' ''GeneratorRun''"

abbreviation MapData :: pytype where
  "MapData \<equiv> PyClass ''ax.core.map_data'' ''MapData''"

abbreviation MapKeyInfo :: pytype where
  "MapKeyInfo \<equiv> PyClass ''ax.core.map_data'' ''MapKeyInfo''"

abbreviation MapMetric :: pytype where
  "MapMetric \<equiv> PyClass ''ax.core.map_metric'' ''MapMetric''"

abbreviation Metric :: pytype where
  "Metric \<equiv> PyClass ''ax.core.metric'' ''Metric''"

abbreviation MultiTypeExperiment :: pytype where
  "MultiTypeExperiment \<equiv> PyClass ''ax.core.multi_type_experiment'' ''MultiTypeExperiment''"

abbreviation MultiObjective :: pytype where
  "MultiObjective \<equiv> PyClass ''ax.core.objective'' ''MultiObjective''"

abbreviation Objective :: pytype where
  "Objective \<equiv> PyClass ''ax.core.objective'' ''Objective''"

abbreviation ScalarizedObjective :: pytype where
  "ScalarizedObjective \<equiv> PyClass ''ax.core.objective'' ''ScalarizedObjective''"

abbreviation MultiObjectiveOptimizationConfig :: pytype where
  "MultiObjectiveOptimizationConfig \<equiv> PyClass ''ax.core.optimization_config'' ''MultiObjectiveOptimizationConfig''"

abbreviation OptimizationConfig :: pytype where
  "OptimizationConfig \<equiv> PyClass ''ax.core.optimization_config'' ''OptimizationConfig''"

abbreviation ObjectiveThreshold :: pytype where
  "ObjectiveThreshold \<equiv> PyClass ''ax.core.outcome_constraint'' ''ObjectiveThreshold''"

abbreviation OutcomeConstraint :: pytype where
  "OutcomeConstraint \<equiv> PyClass ''ax.core.outcome_constraint'' ''OutcomeConstraint''"

abbreviation ChoiceParameter :: pytype where
  "ChoiceParameter \<equiv> PyClass ''ax.core.parameter'' ''ChoiceParameter''"

abbreviation FixedParameter :: pytype where
  "FixedParameter \<equiv> PyClass ''ax.core.parameter'' ''FixedParameter''"

abbreviation ParameterType :: pytype where
  "ParameterType \<equiv> PyClass ''ax.core.parameter'' ''ParameterType''"

abbreviation RangeParameter :: pytype where
  "RangeParameter \<equiv> PyClass ''ax.core.parameter'' ''RangeParameter''"

abbreviation OrderConstraint :: pytype where
  "OrderConstraint \<equiv> PyClass ''ax.core.parameter_constraint'' ''OrderConstraint''"

abbreviation ParameterConstraint :: pytype where
  "ParameterConstraint \<equiv> PyClass ''ax.core.parameter_constraint'' ''ParameterConstraint''"

abbreviation SumConstraint :: pytype where
  "SumConstraint \<equiv> PyClass ''ax.core.parameter_constraint'' ''SumConstraint''"

abbreviation SearchSpace :: pytype where
  "SearchSpace \<equiv> PyClass ''ax.core.search_space'' ''SearchSpace''"

abbreviation HierarchicalSearchSpace :: pytype where
  "HierarchicalSearchSpace \<equiv> PyClass ''ax.core.search_space'' ''HierarchicalSearchSpace''"

abbreviation Trial :: pytype where
  "Trial \<equiv> PyClass ''ax.core.trial'' ''Trial''"

abbreviation ComparisonOp :: pytype where
  "ComparisonOp \<equiv> PyClass ''ax.core.types'' ''ComparisonOp''"

abbreviation PercentileEarlyStoppingStrategy :: pytype where
  "PercentileEarlyStoppingStrategy \<equiv> PyClass ''ax.early_stopping.strategies'' ''PercentileEarlyStoppingStrategy''"

abbreviation ThresholdEarlyStoppingStrategy :: pytype where
  "ThresholdEarlyStoppingStrategy \<equiv> PyClass ''ax.early_stopping.strategies'' ''ThresholdEarlyStoppingStrategy''"

abbreviation AndEarlyStoppingStrategy :: pytype where
  "AndEarlyStoppingStrategy \<equiv> PyClass ''ax.early_stopping.strategies.logical'' ''AndEarlyStoppingStrategy''"

abbreviation OrEarlyStoppingStrategy :: pytype where
  "OrEarlyStoppingStrategy \<equiv> PyClass ''ax.early_stopping.strategies.logical'' ''OrEarlyStoppingStrategy''"

abbreviation BotorchTestProblemMetric :: pytype where
  "BotorchTestProblemMetric \<equiv> PyClass ''ax.metrics.botorch_test_problem'' ''BotorchTestProblemMetric''"

abbreviation AugmentedBraninMetric :: pytype where
  "AugmentedBraninMetric \<equiv> PyClass ''ax.metrics.branin'' ''AugmentedBraninMetric''"

abbreviation BraninMetric :: pytype where
  "BraninMetric \<equiv> PyClass ''ax.metrics.branin'' ''BraninMetric''"

abbreviation NegativeBraninMetric :: pytype where
  "NegativeBraninMetric \<equiv> PyClass ''ax.metrics.branin'' ''NegativeBraninMetric''"

abbreviation BraninTimestampMapMetric :: pytype where
  "BraninTimestampMapMetric \<equiv> PyClass ''ax.metrics.branin_map'' ''BraninTimestampMapMetric''"

abbreviation ChemistryProblemType :: pytype where
  "ChemistryProblemType \<equiv> PyClass ''ax.metrics.chemistry'' ''ChemistryProblemType''"

abbreviation ChemistryMetric :: pytype where
  "ChemistryMetric \<equiv> PyClass ''ax.metrics.chemistry'' ''ChemistryMetric''"

abbreviation FactorialMetric :: pytype where
  "FactorialMetric \<equiv> PyClass ''ax.metrics.factorial'' ''FactorialMetric''"

abbreviation AugmentedHartmann6Metric :: pytype where
  "AugmentedHartmann6Metric \<equiv> PyClass ''ax.metrics.hartmann6'' ''AugmentedHartmann6Metric''"

abbreviation Hartmann6Metric :: pytype where
  "Hartmann6Metric \<equiv> PyClass ''ax.metrics.hartmann6'' ''Hartmann6Metric''"

abbreviation L2NormMetric :: pytype where
  "L2NormMetric \<equiv> PyClass ''ax.metrics.l2norm'' ''L2NormMetric''"

abbreviation NoisyFunctionMetric :: pytype where
  "NoisyFunctionMetric \<equiv> PyClass ''ax.metrics.noisy_function'' ''NoisyFunctionMetric''"

abbreviation SklearnMetric :: pytype where
  "SklearnMetric \<equiv> PyClass ''ax.metrics.sklearn'' ''SklearnMetric''"

abbreviation SklearnDataset :: pytype where
  "SklearnDataset \<equiv> PyClass ''ax.metrics.sklearn'' ''SklearnDataset''"

abbreviation SklearnModelType :: pytype where
  "SklearnModelType \<equiv> PyClass ''ax.metrics.sklearn'' ''SklearnModelType''"

abbreviation Models :: pytype where
  "Models \<equiv> PyClass ''ax.modelbridge.factory'' ''Models''"

abbreviation GenerationStep :: pytype where
  "GenerationStep \<equiv> PyClass ''ax.modelbridge.generation_strategy'' ''GenerationStep''"

abbreviation GenerationStrategy :: pytype where
  "GenerationStrategy \<equiv> PyClass ''ax.modelbridge.generation_strategy'' ''GenerationStrategy''"

abbreviation Transform :: pytype where
  "Transform \<equiv> PyClass ''ax.modelbridge.transforms.base'' ''Transform''"

abbreviation WinsorizationConfig :: pytype where
  "WinsorizationConfig \<equiv> PyClass ''ax.modelbridge.transforms.winsorize'' ''WinsorizationConfig''"

abbreviation Acquisition :: pytype where
  "Acquisition \<equiv> PyClass ''ax.models.torch.botorch_modular.acquisition'' ''Acquisition''"

abbreviation ListSurrogate :: pytype where
  "ListSurrogate \<equiv> PyClass ''ax.models.torch.botorch_modular.list_surrogate'' ''ListSurrogate''"

abbreviation BoTorchModel :: pytype where
  "BoTorchModel \<equiv> PyClass ''ax.models.torch.botorch_modular.model'' ''BoTorchModel''"

abbreviation Surrogate :: pytype where
  "Surrogate \<equiv> PyClass ''ax.models.torch.botorch_modular.surrogate'' ''Surrogate''"

abbreviation BotorchTestProblemRunner :: pytype where
  "BotorchTestProblemRunner \<equiv> PyClass ''ax.runners.botorch_test_problem'' ''BotorchTestProblemRunner''"

abbreviation SyntheticRunner :: pytype where
  "SyntheticRunner \<equiv> PyClass ''ax.runners.synthetic'' ''SyntheticRunner''"

abbreviation SchedulerOptions :: pytype where
  "SchedulerOptions \<equiv> PyClass ''ax.service.utils.scheduler_options'' ''SchedulerOptions''"

abbreviation TrialType :: pytype where
  "TrialType \<equiv> PyClass ''ax.service.utils.scheduler_options'' ''TrialType''"

abbreviation DomainType :: pytype where
  "DomainType \<equiv> PyClass ''ax.storage.utils'' ''DomainType''"

abbreviation ParameterConstraintType :: pytype where
  "ParameterConstraintType \<equiv> PyClass ''ax.storage.utils'' ''ParameterConstraintType''"

abbreviation AcquisitionFunction :: pytype where
  "AcquisitionFunction \<equiv> PyClass ''botorch.acquisition.acquisition'' ''AcquisitionFunction''"

abbreviation Model :: pytype where
  "Model \<equiv> PyClass ''botorch.models.model'' ''Model''"

abbreviation Interval :: pytype where
  "Interval \<equiv> PyClass ''gpytorch.constraints'' ''Interval''"

abbreviation Likelihood :: pytype where
  "Likelihood \<equiv> PyClass ''gpytorch.likelihoods.likelihood'' ''Likelihood''"

abbreviation MarginalLogLikelihood :: pytype where
  "MarginalLogLikelihood \<equiv> PyClass ''gpytorch.mlls.marginal_log_likelihood'' ''MarginalLogLikelihood''"

abbreviation GammaPrior :: pytype where
  "GammaPrior \<equiv> PyClass ''gpytorch.priors.torch_priors'' ''GammaPrior''"

abbreviation Module :: pytype where
  "Module \<equiv> PyClass ''torch.nn'' ''Module''"

datatype encoder =
    arm_to_dict
  | batch_to_dict
  | benchmark_problem_to_dict
  | botorch_component_to_dict
  | botorch_model_to_dict
  | botorch_modular_to_dict
  | choice_parameter_to_dict
  | data_to_dict
  | experiment_to_dict
  | fixed_parameter_to_dict
  | generation_step_to_dict
  | generation_strategy_to_dict
  | generator_run_to_dict
  | map_data_to_dict
  | map_key_info_to_dict
  | metric_to_dict
  | multi_objective_optimization_config_to_dict
  | multi_objective_to_dict
  | multi_type_experiment_to_dict
  | objective_to_dict
  | observation_features_to_dict
  | optimization_config_to_dict
  | order_parameter_constraint_to_dict
  | outcome_constraint_to_dict
  | parameter_constraint_to_dict
  | percentile_early_stopping_strategy_to_dict
  | range_parameter_to_dict
  | runner_to_dict
  | scalarized_objective_to_dict
  | search_space_to_dict
  | sum_parameter_constraint_to_dict
  | surrogate_to_dict
  | transform_type_to_dict
  | trial_to_dict
  | threshold_early_stopping_strategy_to_dict
  | winsorization_config_to_dict
  | logical_early_stopping_strategy_to_dict

datatype class_decoder =
    class_from_json
  | transform_type_from_json

definition CORE_ENCODER_REGISTRY :: "(pytype \<times> encoder) list" where
  "CORE_ENCODER_REGISTRY =
    [(Arm, arm_to_dict),
     (AndEarlyStoppingStrategy, logical_early_stopping_strategy_to_dict),
     (AugmentedBraninMetric, metric_to_dict),
     (AugmentedHartmann6Metric, metric_to_dict),
     (BatchTrial, batch_to_dict),
     (BoTorchModel, botorch_model_to_dict),
     (BotorchTestProblemMetric, metric_to_dict),
     (BotorchTestProblemRunner, runner_to_dict),
     (BraninMetric, metric_to_dict),
     (BraninTimestampMapMetric, metric_to_dict),
     (ChoiceParameter, choice_parameter_to_dict),
     (Data, data_to_dict),
     (Experiment, experiment_to_dict),
     (FactorialMetric, metric_to_dict),
     (FixedParameter, fixed_parameter_to_dict),
     (GammaPrior, botorch_component_to_dict),
     (GenerationStep, generation_step_to_dict),
     (GenerationStrategy, generation_strategy_to_dict),
     (GeneratorRun, generator_run_to_dict),
     (Hartmann6Metric, metric_to_dict),
     (Interval, botorch_component_to_dict),
     (ListSurrogate, surrogate_to_dict),
     (L2NormMetric, metric_to_dict),
     (MapData, map_data_to_dict),
     (MapKeyInfo, map_key_info_to_dict),
     (MapMetric, metric_to_dict),
     (Metric, metric_to_dict),
     (MultiObjective, multi_objective_to_dict),
     (MultiObjectiveOptimizationConfig, multi_objective_optimization_config_to_dict),
     (MultiTypeExperiment, multi_type_experiment_to_dict),
     (PercentileEarlyStoppingStrategy, percentile_early_stopping_strategy_to_dict),
     (SklearnMetric, metric_to_dict),
     (ChemistryMetric, metric_to_dict),
     (NegativeBraninMetric, metric_to_dict),
     (NoisyFunctionMetric, metric_to_dict),
     (Objective, objective_to_dict),
     (ObjectiveThreshold, outcome_constraint_to_dict),
     (OptimizationConfig, optimization_config_to_dict),
     (OrEarlyStoppingStrategy, logical_early_stopping_strategy_to_dict),
     (OrderConstraint, order_parameter_constraint_to_dict),
     (OutcomeConstraint, outcome_constraint_to_dict),
     (ParameterConstraint, parameter_constraint_to_dict),
     (RangeParameter, range_parameter_to_dict),
     (ScalarizedObjective, scalarized_objective_to_dict),
     (SearchSpace, search_space_to_dict),
     (HierarchicalSearchSpace, search_space_to_dict),
     (SimpleBenchmarkProblem, benchmark_problem_to_dict),
     (SumConstraint, sum_parameter_constraint_to_dict),
     (Surrogate, surrogate_to_dict),
     (SyntheticRunner, runner_to_dict),
     (ThresholdEarlyStoppingStrategy, threshold_early_stopping_strategy_to_dict),
     (Trial, trial_to_dict),
     (ObservationFeatures, observation_features_to_dict),
     (WinsorizationConfig, winsorization_config_to_dict)]"

definition CORE_CLASS_ENCODER_REGISTRY :: "(pytype \<times> encoder) list" where
  "CORE_CLASS_ENCODER_REGISTRY =
    [(Acquisition, botorch_modular_to_dict),
     (AcquisitionFunction, botorch_modular_to_dict),
     (Likelihood, botorch_modular_to_dict),
     (Module, botorch_modular_to_dict),
     (MarginalLogLikelihood, botorch_modular_to_dict),
     (Model, botorch_modular_to_dict),
     (Transform, transform_type_to_dict)]"

definition CORE_DECODER_REGISTRY :: "(string \<times> pytype) list" where
  "CORE_DECODER_REGISTRY =
    [(''AbandonedArm'', AbandonedArm),
     (''AndEarlyStoppingStrategy'', AndEarlyStoppingStrategy),
     (''AugmentedBraninMetric'', AugmentedBraninMetric),
     (''AugmentedHartmann6Metric'', AugmentedHartmann6Metric),
     (''Arm'', Arm),
     (''BatchTrial'', BatchTrial),
     (''AggregatedBenchmarkResult'', AggregatedBenchmarkResult),
     (''BenchmarkMethod'', BenchmarkMethod),
     (''BenchmarkProblem'', BenchmarkProblem),
     (''BenchmarkResult'', BenchmarkResult),
     (''BoTorchModel'', BoTorchModel),
     (''BotorchTestProblemMetric'', BotorchTestProblemMetric),
     (''BotorchTestProblemRunner'', BotorchTestProblemRunner),
     (''BraninMetric'', BraninMetric),
     (''BraninTimestampMapMetric'', BraninTimestampMapMetric),
     (''ChemistryMetric'', ChemistryMetric),
     (''ChemistryProblemType'', ChemistryProblemType),
     (''ChoiceParameter'', ChoiceParameter),
     (''ComparisonOp'', ComparisonOp),
     (''Data'', Data),
     (''DataType'', DataType),
     (''DomainType'', DomainType),
     (''Experiment'', Experiment),
     (''FactorialMetric'', FactorialMetric),
     (''FixedParameter'', FixedParameter),
     (''GammaPrior'', GammaPrior),
     (''GenerationStrategy'', GenerationStrategy),
     (''GenerationStep'', GenerationStep),
     (''GeneratorRun'', GeneratorRun),
     (''GeneratorRunStruct'', GeneratorRunStruct),
     (''Hartmann6Metric'', Hartmann6Metric),
     (''HierarchicalSearchSpace'', HierarchicalSearchSpace),
     (''Interval'', Interval),
     (''ListSurrogate'', ListSurrogate),
     (''L2NormMetric'', L2NormMetric),
     (''MapData'', MapData),
     (''MapMetric'', MapMetric),
     (''MapKeyInfo'', MapKeyInfo),
     (''Metric'', Metric),
     (''Models'', Models),
     (''MultiObjective'', MultiObjective),
     (''MultiObjectiveBenchmarkProblem'', MultiObjectiveBenchmarkProblem),
     (''MultiObjectiveOptimizationConfig'', MultiObjectiveOptimizationConfig),
     (''MultiTypeExperiment'', MultiTypeExperiment),
     (''NegativeBraninMetric'', NegativeBraninMetric),
     (''NoisyFunctionMetric'', NoisyFunctionMetric),
     (''Objective'', Objective),
     (''ObjectiveThreshold'', ObjectiveThreshold),
     (''OptimizationConfig'', OptimizationConfig),
     (''OrEarlyStoppingStrategy'', OrEarlyStoppingStrategy),
     (''OrderConstraint'', OrderConstraint),
     (''OutcomeConstraint'', OutcomeConstraint),
     (''ParameterConstraint'', ParameterConstraint),
     (''ParameterConstraintType'', ParameterConstraintType),
     (''ParameterType'', ParameterType),
     (''PercentileEarlyStoppingStrategy'', PercentileEarlyStoppingStrategy),
     (''RangeParameter'', RangeParameter),
     (''ScalarizedObjective'', ScalarizedObjective),
     (''SchedulerOptions'', SchedulerOptions),
     (''ScoredBenchmarkResult'', ScoredBenchmarkResult),
     (''SearchSpace'', SearchSpace),
     (''SimpleBenchmarkProblem'', SimpleBenchmarkProblem),
     (''SingleObjectiveBenchmarkProblem'', SingleObjectiveBenchmarkProblem),
     (''SklearnDataset'', SklearnDataset),
     (''SklearnMetric'', SklearnMetric),
     (''SklearnModelType'', SklearnModelType),
     (''SumConstraint'', SumConstraint),
     (''Surrogate'', Surrogate),
     (''SyntheticRunner'', SyntheticRunner),
     (''Trial'', Trial),
     (''TrialType'', TrialType),
     (''TrialStatus'', TrialStatus),
     (''ThresholdEarlyStoppingStrategy'', ThresholdEarlyStoppingStrategy),
     (''ObservationFeatures'', ObservationFeatures),
     (''WinsorizationConfig'', WinsorizationConfig)]"

definition CORE_CLASS_DECODER_REGISTRY :: "(string \<times> class_decoder) list" where
  "CORE_CLASS_DECODER_REGISTRY =
    [(''Type[Acquisition]'', class_from_json),
     (''Type[AcquisitionFunction]'', class_from_json),
     (''Type[Likelihood]'', class_from_json),
     (''Type[Module]'', class_from_json),
     (''Type[MarginalLogLikelihood]'', class_from_json),
     (''Type[Model]'', class_from_json),
     (''Type[Transform]'', transform_type_from_json)]"

text \<open>
  A dictionary display is read as its list of items in source order. \<open>dict_keys\<close> and
  \<open>dict_get\<close> are the keys and the lookup of the dictionary as long as no key is written
  twice, which is proved for each registry below.
\<close>

definition dict_keys :: "('k \<times> 'v) list \<Rightarrow> 'k list" where
  "dict_keys d = map fst d"

definition dict_get :: "('k \<times> 'v) list \<Rightarrow> 'k \<Rightarrow> 'v option" where
  "dict_get d k = map_of d k"

text \<open>
  Modelled from the spec: the discriminant of a type reference, \<open>"Type[<BaseName>]"\<close>
  (spec, section 6), for the base class \<open>B\<close> with \<open>B\<close>'s class name. The encoders that
  emit it are not among the sources.
\<close>

definition type_ref_name :: "pytype \<Rightarrow> string" where
  "type_ref_name B = ''Type['' @ py_name B @ '']''"

section \<open>Properties of the benchmark metrics\<close>

subsection \<open>Allocation and the two branches of \<open>make_ground_truth_metric\<close>\<close>

lemma make_ground_truth_metric_plain:
  "deref h m = Some obj \<Longrightarrow> class_of obj = BenchmarkMetric \<Longrightarrow>
   make_ground_truth_metric gtn m h =
     Some (length h, h @ [GroundTruthBenchmarkMetric_init gtn m obj])"
  by (simp add: make_ground_truth_metric_def new_GroundTruthBenchmarkMetric_def alloc_def)

lemma make_ground_truth_metric_self:
  "deref h m = Some obj \<Longrightarrow> class_of obj = GroundTruthBenchmarkMetric \<Longrightarrow>
   make_ground_truth_metric gtn m h = Some (m, h)"
  by (simp add: make_ground_truth_metric_def)

lemma GroundTruthBenchmarkMetric_init_class:
  "class_of (GroundTruthBenchmarkMetric_init gtn r obj) = GroundTruthBenchmarkMetric"
  by (simp add: GroundTruthBenchmarkMetric_init_def BenchmarkMetric_init_def)

lemma GroundTruthBenchmarkMetric_init_noise:
  "observe_noise_sd (GroundTruthBenchmarkMetric_init gtn r obj) = False"
  by (simp add: GroundTruthBenchmarkMetric_init_def BenchmarkMetric_init_def)

lemma deref_snoc_new: "deref (h @ [obj]) (length h) = Some obj"
  by (simp add: deref_def)

lemma deref_snoc_old: "q < length h \<Longrightarrow> deref (h @ [obj]) q = deref h q"
  by (simp add: deref_def nth_append)

lemma make_ground_truth_metric_result_class:
  assumes "make_ground_truth_metric gtn m h = Some (g, h')"
  shows "\<exists>gobj. deref h' g = Some gobj \<and> class_of gobj = GroundTruthBenchmarkMetric"
proof (cases "deref h m")
  case None
  with assms show ?thesis by (simp add: make_ground_truth_metric_def)
next
  case (Some obj)
  show ?thesis
  proof (cases "class_of obj")
    case BenchmarkMetric
    with Some assms show ?thesis
      by (auto simp: make_ground_truth_metric_plain deref_snoc_new
            GroundTruthBenchmarkMetric_init_class)
  next
    case GroundTruthBenchmarkMetric
    with Some assms show ?thesis
      by (auto simp: make_ground_truth_metric_self)
  qed
qed

subsection \<open>Idempotence of the ground-truth transform\<close>

text \<open>
  Claim C1, as the spec writes it: for every metric, the expression
  \<open>metric.make_ground_truth_metric().make_ground_truth_metric() is
  metric.make_ground_truth_metric()\<close> is true. It is false for a metric of the plain
  class: each call of \<open>BenchmarkMetric.make_ground_truth_metric\<close> constructs a new
  \<open>GroundTruthBenchmarkMetric\<close>, so the right operand is a second wrapper, another object
  than the one the left operand made. The heap with one plain metric shows it.
\<close>

theorem ground_truth_twice_is_once_counterexample:
  "ground_truth_twice_is_once (get_ground_truth_name [] ''_gt'') 0
     [BenchmarkMetric_init BenchmarkMetric ''m'' True True None] = Some False"
  by (simp add: ground_truth_twice_is_once_def make_ground_truth_metric_def
        new_GroundTruthBenchmarkMetric_def alloc_def deref_def BenchmarkMetric_init_def
        GroundTruthBenchmarkMetric_init_def nth_append)

text \<open>
  Claim C1, amended: for every metric \<open>m\<close>, the call \<open>m.make_ground_truth_metric()\<close>
  returns a metric \<open>g\<close>, and \<open>g.make_ground_truth_metric()\<close> is \<open>g\<close> itself: the same
  reference, with no object allocated. On a \<open>GroundTruthBenchmarkMetric\<close> the method
  returns that same instance and leaves the heap as it is. The expression of the spec,
  which evaluates \<open>m.make_ground_truth_metric()\<close> a second time, is true exactly when
  \<open>m\<close> is itself a ground-truth metric.
\<close>

theorem make_ground_truth_metric_idempotent:
  assumes "deref h m = Some obj"
  shows "\<exists>g h'. make_ground_truth_metric gtn m h = Some (g, h')
           \<and> make_ground_truth_metric gtn g h' = Some (g, h')
           \<and> (class_of obj = GroundTruthBenchmarkMetric \<longrightarrow> g = m \<and> h' = h)
           \<and> ground_truth_twice_is_once gtn m h
               = Some (class_of obj = GroundTruthBenchmarkMetric)"
proof (cases "class_of obj")
  case BenchmarkMetric
  let ?g = "GroundTruthBenchmarkMetric_init gtn m obj"
  have m_lt: "m < length h"
    using assms by (simp add: deref_def split: if_splits)
  have first: "make_ground_truth_metric gtn m h = Some (length h, h @ [?g])"
    using assms BenchmarkMetric by (rule make_ground_truth_metric_plain)
  have second: "make_ground_truth_metric gtn (length h) (h @ [?g]) = Some (length h, h @ [?g])"
    by (rule make_ground_truth_metric_self [OF deref_snoc_new
          GroundTruthBenchmarkMetric_init_class])
  have m_later: "deref (h @ [?g]) m = Some obj"
    using assms m_lt by (simp add: deref_snoc_old)
  have third: "make_ground_truth_metric gtn m (h @ [?g])
                 = Some (Suc (length h), h @ [?g] @ [?g])"
    using make_ground_truth_metric_plain [OF m_later BenchmarkMetric, of gtn] by simp
  have "ground_truth_twice_is_once gtn m h = Some False"
    by (simp add: ground_truth_twice_is_once_def first second third)
  with first second BenchmarkMetric show ?thesis by simp
next
  case GroundTruthBenchmarkMetric
  have self: "make_ground_truth_metric gtn m h = Some (m, h)"
    using assms GroundTruthBenchmarkMetric by (rule make_ground_truth_metric_self)
  have "ground_truth_twice_is_once gtn m h = Some True"
    by (simp add: ground_truth_twice_is_once_def self)
  with self GroundTruthBenchmarkMetric show ?thesis by simp
qed

theorem make_ground_truth_metric_idempotent_witness:
  "deref [BenchmarkMetric_init BenchmarkMetric ''m'' True True None] 0
     = Some (BenchmarkMetric_init BenchmarkMetric ''m'' True True None)
   \<and> (\<exists>g h'. make_ground_truth_metric (get_ground_truth_name [] ''_gt'') 0
                [BenchmarkMetric_init BenchmarkMetric ''m'' True True None] = Some (g, h')
          \<and> make_ground_truth_metric (get_ground_truth_name [] ''_gt'') g h' = Some (g, h'))"
proof -
  have h: "deref [BenchmarkMetric_init BenchmarkMetric ''m'' True True None] 0
             = Some (BenchmarkMetric_init BenchmarkMetric ''m'' True True None)"
    by (simp add: deref_def)
  show ?thesis
    using h make_ground_truth_metric_idempotent [OF h, of "get_ground_truth_name [] ''_gt''"]
    by blast
qed

subsection \<open>A ground-truth metric never observes the noise level\<close>

lemma ground_truth_noise_free_snoc:
  "ground_truth_noise_free (h @ [obj]) \<longleftrightarrow>
     ground_truth_noise_free h
     \<and> (class_of obj = GroundTruthBenchmarkMetric \<longrightarrow> observe_noise_sd obj = False)"
  by (auto simp: ground_truth_noise_free_def nth_append less_Suc_eq)

lemma reachable_noise_free: "reachable gtn h \<Longrightarrow> ground_truth_noise_free h"
proof (induction rule: reachable.induct)
  case reach_empty
  show ?case by (simp add: ground_truth_noise_free_def)
next
  case (reach_new h n lib ons oi r h')
  then show ?case
    by (auto simp: ground_truth_noise_free_snoc new_BenchmarkMetric_def alloc_def
          BenchmarkMetric_init_def)
next
  case (reach_new_gt h orig r h')
  then show ?case
    by (auto simp: ground_truth_noise_free_snoc new_GroundTruthBenchmarkMetric_def alloc_def
          GroundTruthBenchmarkMetric_init_noise split: option.splits)
next
  case (reach_make h self r h')
  then show ?case
    by (auto simp: ground_truth_noise_free_snoc make_ground_truth_metric_def
          new_GroundTruthBenchmarkMetric_def alloc_def GroundTruthBenchmarkMetric_init_noise
          split: option.splits metric_class.splits)
qed

text \<open>
  Claim C3: the metric that \<open>m.make_ground_truth_metric()\<close> returns is a
  \<open>GroundTruthBenchmarkMetric\<close> with \<open>observe_noise_sd == False\<close>, whatever
  \<open>m.observe_noise_sd\<close> is, and every \<open>GroundTruthBenchmarkMetric\<close> in a heap built by the
  constructors and \<open>make_ground_truth_metric\<close> has \<open>observe_noise_sd == False\<close>.
\<close>

theorem ground_truth_observe_noise_sd_False:
  assumes "reachable gtn h"
  shows "(\<forall>r obj. deref h r = Some obj \<and> class_of obj = GroundTruthBenchmarkMetric
            \<longrightarrow> observe_noise_sd obj = False)
       \<and> (\<forall>m obj. deref h m = Some obj \<longrightarrow>
            (\<exists>g h' gobj. make_ground_truth_metric gtn m h = Some (g, h')
                \<and> deref h' g = Some gobj
                \<and> class_of gobj = GroundTruthBenchmarkMetric
                \<and> observe_noise_sd gobj = False))"
proof (intro conjI allI impI)
  fix r obj
  assume "deref h r = Some obj \<and> class_of obj = GroundTruthBenchmarkMetric"
  with reachable_noise_free [OF assms] show "observe_noise_sd obj = False"
    by (auto simp: ground_truth_noise_free_def deref_def split: if_splits)
next
  fix m obj
  assume m: "deref h m = Some obj"
  obtain g h' where made: "make_ground_truth_metric gtn m h = Some (g, h')"
    using make_ground_truth_metric_plain [OF m] make_ground_truth_metric_self [OF m]
    by (cases "class_of obj") auto
  obtain gobj where gobj: "deref h' g = Some gobj"
      "class_of gobj = GroundTruthBenchmarkMetric"
    using make_ground_truth_metric_result_class [OF made] by blast
  have "reachable gtn h'" using assms made by (rule reach_make)
  then have "ground_truth_noise_free h'" by (rule reachable_noise_free)
  with gobj have "observe_noise_sd gobj = False"
    by (auto simp: ground_truth_noise_free_def deref_def split: if_splits)
  with made gobj
  show "\<exists>g h' gobj. make_ground_truth_metric gtn m h = Some (g, h')
          \<and> deref h' g = Some gobj
          \<and> class_of gobj = GroundTruthBenchmarkMetric
          \<and> observe_noise_sd gobj = False"
    by blast
qed

theorem ground_truth_observe_noise_sd_False_witness:
  "reachable (get_ground_truth_name [] ''_gt'')
     [BenchmarkMetric_init BenchmarkMetric ''m'' True True None]
   \<and> observe_noise_sd (BenchmarkMetric_init BenchmarkMetric ''m'' True True None) = True
   \<and> (\<exists>g h' gobj. make_ground_truth_metric (get_ground_truth_name [] ''_gt'') 0
           [BenchmarkMetric_init BenchmarkMetric ''m'' True True None] = Some (g, h')
         \<and> deref h' g = Some gobj
         \<and> class_of gobj = GroundTruthBenchmarkMetric
         \<and> observe_noise_sd gobj = False)"
proof -
  let ?m = "BenchmarkMetric_init BenchmarkMetric ''m'' True True None"
  have new: "new_BenchmarkMetric ''m'' True True None [] = (0, [?m])"
    by (simp add: new_BenchmarkMetric_def alloc_def)
  have r: "reachable (get_ground_truth_name [] ''_gt'') [?m]"
    by (rule reach_new [OF reach_empty new])
  have d: "deref [?m] 0 = Some ?m"
    by (simp add: deref_def)
  have n: "observe_noise_sd ?m = True"
    by (simp add: BenchmarkMetric_init_def)
  show ?thesis
    using r d n ground_truth_observe_noise_sd_False [OF r]
    by blast
qed

subsection \<open>The name of a ground-truth metric\<close>

text \<open>
  Claim C9: the name of the ground-truth metric is a function of the name of the original
  metric alone. For two metrics of class \<open>BenchmarkMetric\<close> with equal names, in any two
  heaps and whatever their other attributes are, \<open>make_ground_truth_metric\<close> returns
  metrics with equal names. The name is computed by \<open>get_ground_truth_name\<close>, as the spec
  describes it.
\<close>

theorem ground_truth_name_deterministic:
  assumes "deref h1 m1 = Some obj1" and "class_of obj1 = BenchmarkMetric"
      and "deref h2 m2 = Some obj2" and "class_of obj2 = BenchmarkMetric"
      and "name obj1 = name obj2"
  shows "\<exists>g1 h1' gobj1 g2 h2' gobj2.
           make_ground_truth_metric (get_ground_truth_name pre suf) m1 h1 = Some (g1, h1')
         \<and> make_ground_truth_metric (get_ground_truth_name pre suf) m2 h2 = Some (g2, h2')
         \<and> deref h1' g1 = Some gobj1 \<and> deref h2' g2 = Some gobj2
         \<and> name gobj1 = name gobj2
         \<and> name gobj1 = get_ground_truth_name pre suf obj1"
  using assms
  by (simp add: make_ground_truth_metric_plain deref_snoc_new
        GroundTruthBenchmarkMetric_init_def BenchmarkMetric_init_def
        get_ground_truth_name_def)

theorem ground_truth_name_deterministic_witness:
  "deref [BenchmarkMetric_init BenchmarkMetric ''m'' True True None] 0
     = Some (BenchmarkMetric_init BenchmarkMetric ''m'' True True None)
   \<and> deref [BenchmarkMetric_init BenchmarkMetric ''k'' True False None,
             BenchmarkMetric_init BenchmarkMetric ''m'' False False (Some 2)] 1
     = Some (BenchmarkMetric_init BenchmarkMetric ''m'' False False (Some 2))
   \<and> (\<exists>g1 h1' gobj1 g2 h2' gobj2.
         make_ground_truth_metric (get_ground_truth_name [] ''_gt'') 0
           [BenchmarkMetric_init BenchmarkMetric ''m'' True True None] = Some (g1, h1')
       \<and> make_ground_truth_metric (get_ground_truth_name [] ''_gt'') 1
           [BenchmarkMetric_init BenchmarkMetric ''k'' True False None,
            BenchmarkMetric_init BenchmarkMetric ''m'' False False (Some 2)] = Some (g2, h2')
       \<and> deref h1' g1 = Some gobj1 \<and> deref h2' g2 = Some gobj2
       \<and> name gobj1 = name gobj2)"
proof -
  let ?a = "BenchmarkMetric_init BenchmarkMetric ''m'' True True None"
  let ?k = "BenchmarkMetric_init BenchmarkMetric ''k'' True False None"
  let ?b = "BenchmarkMetric_init BenchmarkMetric ''m'' False False (Some 2)"
  have d1: "deref [?a] 0 = Some ?a" by (simp add: deref_def)
  have d2: "deref [?k, ?b] 1 = Some ?b" by (simp add: deref_def)
  have c1: "class_of ?a = BenchmarkMetric" by (simp add: BenchmarkMetric_init_def)
  have c2: "class_of ?b = BenchmarkMetric" by (simp add: BenchmarkMetric_init_def)
  have n: "name ?a = name ?b" by (simp add: BenchmarkMetric_init_def)
  show ?thesis
    using d1 d2 ground_truth_name_deterministic [OF d1 c1 d2 c2 n, of "[]" "''_gt''"]
    by blast
qed

subsection \<open>What the ground-truth transform keeps\<close>

text \<open>
  Claim C10: for a metric \<open>m\<close> of class \<open>BenchmarkMetric\<close>, the metric
  \<open>g = m.make_ground_truth_metric()\<close> has \<open>g.lower_is_better == m.lower_is_better\<close> and
  \<open>g.outcome_index == m.outcome_index\<close>, and \<open>g.original_metric\<close> is \<open>m\<close> itself (the
  reference). The call changes no object that existed before, \<open>m\<close> included.
\<close>

theorem make_ground_truth_metric_frame:
  assumes "deref h m = Some obj" and "class_of obj = BenchmarkMetric"
  shows "\<exists>g h' gobj. make_ground_truth_metric gtn m h = Some (g, h')
           \<and> deref h' g = Some gobj
           \<and> lower_is_better gobj = lower_is_better obj
           \<and> outcome_index gobj = outcome_index obj
           \<and> original_metric gobj = Some m
           \<and> deref h' m = Some obj
           \<and> (\<forall>q < length h. deref h' q = deref h q)"
proof -
  have "m < length h"
    using assms(1) by (simp add: deref_def split: if_splits)
  with assms show ?thesis
    by (simp add: make_ground_truth_metric_plain deref_snoc_new deref_snoc_old
          GroundTruthBenchmarkMetric_init_def BenchmarkMetric_init_def)
qed

theorem make_ground_truth_metric_frame_witness:
  "deref [BenchmarkMetric_init BenchmarkMetric ''m'' True True (Some 3)] 0
     = Some (BenchmarkMetric_init BenchmarkMetric ''m'' True True (Some 3))
   \<and> (\<exists>g h' gobj. make_ground_truth_metric (get_ground_truth_name [] ''_gt'') 0
           [BenchmarkMetric_init BenchmarkMetric ''m'' True True (Some 3)] = Some (g, h')
         \<and> deref h' g = Some gobj
         \<and> lower_is_better gobj = True
         \<and> outcome_index gobj = Some 3
         \<and> original_metric gobj = Some 0)"
proof -
  let ?m = "BenchmarkMetric_init BenchmarkMetric ''m'' True True (Some 3)"
  have d: "deref [?m] 0 = Some ?m" by (simp add: deref_def)
  have c: "class_of ?m = BenchmarkMetric" by (simp add: BenchmarkMetric_init_def)
  have l: "lower_is_better ?m = True" by (simp add: BenchmarkMetric_init_def)
  have i: "outcome_index ?m = Some 3" by (simp add: BenchmarkMetric_init_def)
  show ?thesis
    using d make_ground_truth_metric_frame [OF d c, of "get_ground_truth_name [] ''_gt''"]
    unfolding l i by blast
qed

subsection \<open>Fetching trial data\<close>

text \<open>
  Claim C2: with at least one extra keyword argument, \<open>fetch_trial_data\<close> raises, for a
  metric of either class, and the Fetch Bridge is not called: the log of calls is as it
  was. With no extra keyword argument the call does not raise. The exception of the code
  is Python's \<open>NotImplementedError\<close>; the spec names this error
  \<open>UnsupportedArgumentError\<close>.
\<close>

theorem fetch_trial_data_rejects_kwargs:
  fixes kwargs :: "'v kwargs"
  shows "(kwargs \<noteq> [] \<longrightarrow>
      fetch_trial_data bridge self trial kwargs log
        = (Inl (NotImplementedError (fst ` set kwargs) (class_name (class_of self))), log))
   \<and> (\<exists>res log'. fetch_trial_data bridge self trial ([] :: 'v kwargs) log = (Inr res, log'))"
  by (cases "class_of self")
     (simp_all add: fetch_trial_data_def BenchmarkMetric_fetch_trial_data_def
        GroundTruthBenchmarkMetric_fetch_trial_data_def call_fetch_trial_data_def)

theorem fetch_trial_data_rejects_kwargs_witness:
  "[(''extra_kw'', 1::int)] \<noteq> []
   \<and> fetch_trial_data arg_metric_name
        (BenchmarkMetric_init BenchmarkMetric ''m'' True True None) (7::nat)
        [(''extra_kw'', 1::int)] []
      = (Inl (NotImplementedError {''extra_kw''} ''BenchmarkMetric''), [])"
  using fetch_trial_data_rejects_kwargs [of "[(''extra_kw'', 1::int)]" arg_metric_name
          "BenchmarkMetric_init BenchmarkMetric ''m'' True True None" "7::nat" "[]"]
  by (simp add: BenchmarkMetric_init_def)

text \<open>
  Claim C4: with no extra keyword argument, \<open>BenchmarkMetric.fetch_trial_data\<close> calls the
  Fetch Bridge once, with the trial, \<open>metric_name = self.name\<close>,
  \<open>outcome_index = self.outcome_index\<close>, \<open>include_noise_sd = self.observe_noise_sd\<close> and
  \<open>ground_truth = False\<close>, and \<open>GroundTruthBenchmarkMetric.fetch_trial_data\<close> calls it
  once with \<open>include_noise_sd = False\<close> and \<open>ground_truth = True\<close>; each returns what the
  bridge returns. The log of calls grows by exactly that one call.
\<close>

theorem fetch_trial_data_delegates:
  "BenchmarkMetric_fetch_trial_data bridge self trial [] log
     = (Inr (bridge \<lparr>arg_trial = trial, arg_metric_name = name self,
                     arg_outcome_index = outcome_index self,
                     arg_include_noise_sd = observe_noise_sd self,
                     arg_ground_truth = False\<rparr>),
        log @ [\<lparr>arg_trial = trial, arg_metric_name = name self,
                 arg_outcome_index = outcome_index self,
                 arg_include_noise_sd = observe_noise_sd self,
                 arg_ground_truth = False\<rparr>])
   \<and> GroundTruthBenchmarkMetric_fetch_trial_data bridge self trial [] log
     = (Inr (bridge \<lparr>arg_trial = trial, arg_metric_name = name self,
                     arg_outcome_index = outcome_index self,
                     arg_include_noise_sd = False,
                     arg_ground_truth = True\<rparr>),
        log @ [\<lparr>arg_trial = trial, arg_metric_name = name self,
                 arg_outcome_index = outcome_index self,
                 arg_include_noise_sd = False,
                 arg_ground_truth = True\<rparr>])"
  by (simp add: BenchmarkMetric_fetch_trial_data_def
        GroundTruthBenchmarkMetric_fetch_trial_data_def call_fetch_trial_data_def)

section \<open>Properties of the registries\<close>

text \<open>No registry writes a key twice, so each dictionary display is its list of items.\<close>

lemma CORE_ENCODER_REGISTRY_distinct: "distinct (dict_keys CORE_ENCODER_REGISTRY)"
  by code_simp

lemma CORE_CLASS_ENCODER_REGISTRY_distinct: "distinct (dict_keys CORE_CLASS_ENCODER_REGISTRY)"
  by code_simp

lemma CORE_DECODER_REGISTRY_distinct: "distinct (dict_keys CORE_DECODER_REGISTRY)"
  by code_simp

lemma CORE_CLASS_DECODER_REGISTRY_distinct: "distinct (dict_keys CORE_CLASS_DECODER_REGISTRY)"
  by code_simp

text \<open>
  Claim C5: no type is a key of both \<open>CORE_ENCODER_REGISTRY\<close> and
  \<open>CORE_CLASS_ENCODER_REGISTRY\<close>.
\<close>

theorem encoder_registries_disjoint:
  "set (dict_keys CORE_ENCODER_REGISTRY) \<inter> set (dict_keys CORE_CLASS_ENCODER_REGISTRY) = {}"
  by code_simp

text \<open>
  Claim C6: every type that is a key of \<open>CORE_ENCODER_REGISTRY\<close> is the target of a name
  of \<open>CORE_DECODER_REGISTRY\<close>, and that name is the type's own class name, so the
  decoder table resolves the name back to the type.
\<close>

theorem encoder_keys_have_decoder:
  "\<forall>T \<in> set (dict_keys CORE_ENCODER_REGISTRY).
     py_name T \<in> set (dict_keys CORE_DECODER_REGISTRY)
     \<and> dict_get CORE_DECODER_REGISTRY (py_name T) = Some T"
  by code_simp

theorem encoder_keys_have_decoder_witness:
  "BraninMetric \<in> set (dict_keys CORE_ENCODER_REGISTRY)
   \<and> ''BraninMetric'' \<in> set (dict_keys CORE_DECODER_REGISTRY)
   \<and> dict_get CORE_DECODER_REGISTRY ''BraninMetric'' = Some BraninMetric"
proof -
  have k: "BraninMetric \<in> set (dict_keys CORE_ENCODER_REGISTRY)"
    by code_simp
  show ?thesis
    using k encoder_keys_have_decoder [THEN bspec, OF k] by simp
qed

text \<open>
  Claim C7: every key of \<open>CORE_CLASS_DECODER_REGISTRY\<close> has the form
  \<open>"Type[<BaseName>]"\<close>; for every type \<open>B\<close> that is a key of
  \<open>CORE_CLASS_ENCODER_REGISTRY\<close>, the string \<open>"Type[B]"\<close> with the class name of \<open>B\<close> is a
  key of \<open>CORE_CLASS_DECODER_REGISTRY\<close>; and every key of the class decoder registry is
  \<open>"Type[B]"\<close> for a key \<open>B\<close> of the class encoder registry. The two registries even list
  their keys in the same order.
\<close>

theorem class_decoder_keys_match:
  "(\<forall>k \<in> set (dict_keys CORE_CLASS_DECODER_REGISTRY). \<exists>b. k = ''Type['' @ b @ '']'')
   \<and> (\<forall>B \<in> set (dict_keys CORE_CLASS_ENCODER_REGISTRY).
         type_ref_name B \<in> set (dict_keys CORE_CLASS_DECODER_REGISTRY))
   \<and> (\<forall>k \<in> set (dict_keys CORE_CLASS_DECODER_REGISTRY).
         \<exists>B \<in> set (dict_keys CORE_CLASS_ENCODER_REGISTRY). k = type_ref_name B)
   \<and> dict_keys CORE_CLASS_DECODER_REGISTRY
       = map type_ref_name (dict_keys CORE_CLASS_ENCODER_REGISTRY)"
proof -
  have eq: "dict_keys CORE_CLASS_DECODER_REGISTRY
              = map type_ref_name (dict_keys CORE_CLASS_ENCODER_REGISTRY)"
    by code_simp
  have form: "\<forall>k \<in> set (dict_keys CORE_CLASS_DECODER_REGISTRY). \<exists>b. k = ''Type['' @ b @ '']''"
    unfolding eq by (auto simp: type_ref_name_def)
  from eq form show ?thesis by auto
qed

theorem class_decoder_keys_match_witness:
  "Transform \<in> set (dict_keys CORE_CLASS_ENCODER_REGISTRY)
   \<and> ''Type[Transform]'' \<in> set (dict_keys CORE_CLASS_DECODER_REGISTRY)"
proof -
  have k: "Transform \<in> set (dict_keys CORE_CLASS_ENCODER_REGISTRY)"
    by code_simp
  have "type_ref_name Transform \<in> set (dict_keys CORE_CLASS_DECODER_REGISTRY)"
    using class_decoder_keys_match k by blast
  then show ?thesis
    using k by (simp add: type_ref_name_def)
qed

end
